theory Spec2Isabelle
  imports Main "HOL-Library.Word"
begin

section \<open>The control path daemon \<open>RCtrl\<close> of \<open>src/core/rctrl.hh\<close>\<close>

text \<open>
  \<open>RCtrl\<close> owns three registries (memory regions, queue pairs, opened NICs) and an RPC
  endpoint. It registers two handlers with the endpoint, \<open>fetch_mr_handler\<close> and
  \<open>rc_handler\<close>, and runs them from a worker thread (\<open>daemon\<close>) that polls the endpoint
  while the flag \<open>running\<close> is set.

  The embedding passes the object's state explicitly: a handler takes the \<open>RCtrl\<close> record
  and returns its reply together with the record as the call leaves it. Only
  \<open>rctrl.hh\<close> is at hand; the headers it includes (\<open>qps/factory.hh\<close>,
  \<open>rmem/factory.hh\<close>, \<open>bootstrap/srpc.hh\<close>, the marshalling and the wire structs) are
  not. What the handlers need of them is either taken as a parameter (the byte-level
  marshalling, the hardware operations on a queue pair, the event pump of the endpoint)
  or modelled from the specification (the three registries); each such place says so.
\<close>

subsection \<open>Wire types\<close>

type_synonym u8 = "8 word"
type_synonym u64 = "64 word"

text \<open>
  Identifiers are numeric; their width plays no part in the handlers, which only pass
  them to the registries. \<open>ByteBuffer\<close> is the byte string exchanged with the endpoint.
\<close>

type_synonym register_id_t = nat
type_synonym nic_id_t = nat
type_synonym pthread_t = nat
type_synonym ByteBuffer = string

text \<open>The three status codes a reply carries (\<open>proto::CallbackStatus\<close>).\<close>

datatype CallbackStatus = Ok | NotFound | WrongArg

text \<open>
  \<open>IOCode\<close>: the handler only ever compares a code with \<open>IOCode::Ok\<close>, so every other
  code is one failure value here.
\<close>

datatype IOCode = IOCode_Ok | IOCode_Err

text \<open>
  \<open>proto::MRReq\<close> has the one field \<open>id\<close> (written \<open>mr_id\<close>, since \<open>id\<close> is the
  identity function of HOL). \<open>proto::RCReq\<close> has \<open>id\<close> (written \<open>rc_id\<close>),
  \<open>whether_create\<close> (compared with \<open>static_cast<u8>\<close> values in the source),
  \<open>nic_id\<close>, \<open>config\<close> and \<open>attr\<close>, the attribute of the remote queue pair.
  The types of a queue pair's configuration \<open>'c\<close> and attribute \<open>'a\<close>, of a memory
  region's attribute \<open>'m\<close>, of an opened NIC \<open>'n\<close> and of a queue pair object \<open>'q\<close>
  are opaque to the daemon and stay type variables.
\<close>

record MRReq =
  mr_id :: register_id_t

record ('c, 'a) RCReq =
  rc_id :: register_id_t
  whether_create :: u8
  nic_id :: nic_id_t
  config :: 'c
  attr :: 'a

text \<open>
  \<open>proto::MRReply\<close> and \<open>proto::RCReply\<close> are both a status and an attribute. The
  handlers build them with designated initialisers; a reply built as
  \<open>{.status = s}\<close> leaves the attribute out, which is \<open>None\<close> here.
\<close>

record 'x Reply =
  status :: CallbackStatus
  reply_attr :: "'x option"

type_synonym 'm MRReply = "'m Reply"
type_synonym 'a RCReply = "'a Reply"

text \<open>
  \<open>Marshal::dedump<T>\<close> and \<open>Marshal::dump<T>\<close> copy a struct from and to bytes. Their
  code is not part of \<open>rctrl.hh\<close>; the handlers take them as parameters, \<open>dedump\<close>
  returning \<open>None\<close> where the source's optional is empty.
\<close>

record ('m, 'c, 'a) Marshal =
  dedump_MRReq :: "ByteBuffer \<Rightarrow> MRReq option"
  dedump_RCReq :: "ByteBuffer \<Rightarrow> ('c, 'a) RCReq option"
  dump_MRReply :: "'m MRReply \<Rightarrow> ByteBuffer"
  dump_RCReply :: "'a RCReply \<Rightarrow> ByteBuffer"

subsection \<open>Queue pairs and the registries\<close>

text \<open>
  The hardware side of a reliable-connection queue pair, as parameters: creating one on
  a NIC with a configuration (which can fail), \<open>connect\<close> to a remote attribute
  (returning an \<open>IOCode\<close>), and \<open>my_attr\<close>, the local attribute, fixed when the queue
  pair is created.
\<close>

record ('n, 'c, 'a, 'q) RC_ops =
  rc_create :: "'n \<Rightarrow> 'c \<Rightarrow> 'q option"
  connect :: "'q \<Rightarrow> 'a \<Rightarrow> IOCode"
  my_attr :: "'q \<Rightarrow> 'a"

text \<open>
  \<open>Result<T>\<close>: a code and a descriptor. \<open>create_and_register_rc\<close> returns a pointer
  to the queue pair as descriptor, \<open>None\<close> when it is null.
\<close>

record 'd Result =
  code :: IOCode
  desc :: 'd

text \<open>
  Modelled from the spec: \<open>rmem::RegFactory\<close>, the MR Registry of
  \<open>rmem/factory.hh\<close>, which is not among the sources. The spec gives it as a map from a
  resource id to the attributes of the memory region registered under it;
  \<open>get_attr_byid\<close> is the lookup.
\<close>

type_synonym 'm RegFactory = "register_id_t \<rightharpoonup> 'm"

definition get_attr_byid :: "'m RegFactory \<Rightarrow> register_id_t \<Rightarrow> 'm option" where
  "get_attr_byid mrs i = mrs i"

text \<open>
  Modelled from the spec: \<open>NicFactory\<close>, the NIC Registry, which is not among the
  sources: a map from a NIC id to the opened hardware context.
\<close>

type_synonym 'n NicFactory = "nic_id_t \<rightharpoonup> 'n"

definition find_opened_nic :: "'n NicFactory \<Rightarrow> nic_id_t \<Rightarrow> 'n option" where
  "find_opened_nic nics i = nics i"

text \<open>
  Modelled from the spec: \<open>qp::Factory\<close>, the QP Registry of \<open>qps/factory.hh\<close>, which
  is not among the sources. The spec gives it as a map from a resource id to a
  connection object with three operations. Lookup is \<open>query_rc\<close>. Creation under an id
  fails when the registry already holds an entry for the id, or when the hardware
  refuses to create the queue pair; a failed creation keeps nothing, a successful one
  stores the new queue pair under the id and hands it back. \<open>deregister_rc\<close> removes
  (and releases) the entry of an id.
\<close>

type_synonym 'q Factory = "register_id_t \<rightharpoonup> 'q"

definition query_rc :: "'q Factory \<Rightarrow> register_id_t \<Rightarrow> 'q option" where
  "query_rc qps i = qps i"

definition create_and_register_rc ::
  "('n, 'c, 'a, 'q) RC_ops \<Rightarrow> 'q Factory \<Rightarrow> register_id_t \<Rightarrow> 'n \<Rightarrow> 'c
    \<Rightarrow> 'q option Result \<times> 'q Factory" where
  "create_and_register_rc hw qps i nic cfg =
     (case qps i of
        Some _ \<Rightarrow> (\<lparr>code = IOCode_Err, desc = None\<rparr>, qps)
      | None \<Rightarrow>
          (case rc_create hw nic cfg of
             None \<Rightarrow> (\<lparr>code = IOCode_Err, desc = None\<rparr>, qps)
           | Some rc \<Rightarrow> (\<lparr>code = IOCode_Ok, desc = Some rc\<rparr>, qps(i \<mapsto> rc))))"

definition deregister_rc :: "'q Factory \<Rightarrow> register_id_t \<Rightarrow> 'q Factory" where
  "deregister_rc qps i = qps(i := None)"

subsection \<open>The state of \<open>RCtrl\<close>\<close>

text \<open>
  The members of the class: the atomic flag \<open>running\<close>, the handle of the worker thread
  (\<open>None\<close> before a thread was created), the three registries and the RPC endpoint,
  whose state \<open>'r\<close> belongs to \<open>bootstrap/srpc.hh\<close>.
\<close>

record ('m, 'q, 'n, 'r) RCtrl =
  running :: bool
  handler_tid :: "pthread_t option"
  registered_mrs :: "'m RegFactory"
  registered_qps :: "'q Factory"
  opened_nics :: "'n NicFactory"
  rpc :: 'r

subsection \<open>The handlers\<close>

text \<open>
  \<open>fetch_mr_handler\<close> (lines 83 to 99). It reads the MR registry and writes nothing;
  the state is returned as it came.
\<close>

definition fetch_mr_handler ::
  "('m, 'c, 'a) Marshal \<Rightarrow> ('m, 'q, 'n, 'r) RCtrl \<Rightarrow> ByteBuffer
    \<Rightarrow> ByteBuffer \<times> ('m, 'q, 'n, 'r) RCtrl" where
  "fetch_mr_handler M ctrl b =
     (case dedump_MRReq M b of
        Some req_id \<Rightarrow>
          (case get_attr_byid (registered_mrs ctrl) (mr_id req_id) of
             Some o_attr \<Rightarrow>
               (dump_MRReply M \<lparr>status = Ok, reply_attr = Some o_attr\<rparr>, ctrl)
           | None \<Rightarrow>
               (dump_MRReply M \<lparr>status = NotFound, reply_attr = None\<rparr>, ctrl))
      | None \<Rightarrow> (dump_MRReply M \<lparr>status = WrongArg, reply_attr = None\<rparr>, ctrl))"

text \<open>\<open>fetch_qp_attr\<close> (lines 105 to 113): the attribute of the queue pair of an id.\<close>

definition fetch_qp_attr ::
  "('m, 'c, 'a) Marshal \<Rightarrow> ('n, 'c, 'a, 'q) RC_ops \<Rightarrow> ('m, 'q, 'n, 'r) RCtrl
    \<Rightarrow> ('c, 'a) RCReq \<Rightarrow> ByteBuffer" where
  "fetch_qp_attr M hw ctrl req =
     (case query_rc (registered_qps ctrl) (rc_id req) of
        Some rc \<Rightarrow> dump_RCReply M \<lparr>status = Ok, reply_attr = Some (my_attr hw rc)\<rparr>
      | None \<Rightarrow> dump_RCReply M \<lparr>status = NotFound, reply_attr = None\<rparr>)"

text \<open>
  \<open>rc_handler\<close> (lines 122 to 165). The label \<open>WA\<close> is the reply \<open>WrongArg\<close>; every
  \<open>goto WA\<close> returns it with the state as it is at the jump. The sanity check is the
  source's condition, letter for letter. The call of \<open>create_and_register_rc\<close> writes
  the registry, so the state after it is threaded through both of its outcomes. The
  source calls \<open>connect\<close> through the descriptor of the result; a null descriptor there
  would be a fault of the handler, which is the value \<open>Inl Null_descriptor\<close>.
\<close>

datatype fault = Null_descriptor

definition WA :: "('m, 'c, 'a) Marshal \<Rightarrow> ByteBuffer" where
  "WA M = dump_RCReply M \<lparr>status = WrongArg, reply_attr = None\<rparr>"

definition rc_handler ::
  "('m, 'c, 'a) Marshal \<Rightarrow> ('n, 'c, 'a, 'q) RC_ops \<Rightarrow> ('m, 'q, 'n, 'r) RCtrl
    \<Rightarrow> ByteBuffer \<Rightarrow> fault + ByteBuffer \<times> ('m, 'q, 'n, 'r) RCtrl" where
  "rc_handler M hw ctrl b =
     (case dedump_RCReq M b of
        None \<Rightarrow> Inr (WA M, ctrl)
      | Some rc_req \<Rightarrow>
          if \<not> (whether_create rc_req = 1 \<or> whether_create rc_req \<noteq> 0)
          then Inr (WA M, ctrl)
          else if whether_create rc_req = 1 then
            (case find_opened_nic (opened_nics ctrl) (nic_id rc_req) of
               None \<Rightarrow> Inr (WA M, ctrl)
             | Some nic \<Rightarrow>
                 (case create_and_register_rc hw (registered_qps ctrl) (rc_id rc_req)
                         nic (config rc_req) of
                    (rc_status, qps') \<Rightarrow>
                      let ctrl' = ctrl\<lparr>registered_qps := qps'\<rparr> in
                      if code rc_status \<noteq> IOCode_Ok then Inr (WA M, ctrl')
                      else
                        (case desc rc_status of
                           None \<Rightarrow> Inl Null_descriptor
                         | Some rc \<Rightarrow>
                             if connect hw rc (attr rc_req) \<noteq> IOCode_Ok
                             then Inr (WA M,
                                    ctrl'\<lparr>registered_qps :=
                                      deregister_rc (registered_qps ctrl') (rc_id rc_req)\<rparr>)
                             else Inr (fetch_qp_attr M hw ctrl' rc_req, ctrl'))))
          else Inr (fetch_qp_attr M hw ctrl rc_req, ctrl))"

text \<open>
  The same handler with the operations of the QP registry as parameters: each call of
  \<open>registered_qps.query_rc\<close>, \<open>registered_qps.create_and_register_rc\<close> and
  \<open>registered_qps.deregister_rc\<close> in the source is a call of the corresponding field
  of \<open>reg\<close>, and the rest is \<open>rc_handler\<close> and \<open>fetch_qp_attr\<close> word for word. A
  statement about \<open>rc_handler_on\<close> holds for whatever the registry computes, so it says
  which operations the handler calls, on what, and in which order. \<open>modelled_Factory\<close>
  packs the registry modelled above; on it \<open>rc_handler_on\<close> is \<open>rc_handler\<close>.
\<close>

record ('n, 'c, 'q) Factory_ops =
  reg_query_rc :: "'q Factory \<Rightarrow> register_id_t \<Rightarrow> 'q option"
  reg_create_and_register_rc ::
    "'q Factory \<Rightarrow> register_id_t \<Rightarrow> 'n \<Rightarrow> 'c \<Rightarrow> 'q option Result \<times> 'q Factory"
  reg_deregister_rc :: "'q Factory \<Rightarrow> register_id_t \<Rightarrow> 'q Factory"

definition fetch_qp_attr_on ::
  "('m, 'c, 'a) Marshal \<Rightarrow> ('n, 'c, 'a, 'q) RC_ops \<Rightarrow> ('n, 'c, 'q) Factory_ops
    \<Rightarrow> ('m, 'q, 'n, 'r) RCtrl \<Rightarrow> ('c, 'a) RCReq \<Rightarrow> ByteBuffer" where
  "fetch_qp_attr_on M hw reg ctrl req =
     (case reg_query_rc reg (registered_qps ctrl) (rc_id req) of
        Some rc \<Rightarrow> dump_RCReply M \<lparr>status = Ok, reply_attr = Some (my_attr hw rc)\<rparr>
      | None \<Rightarrow> dump_RCReply M \<lparr>status = NotFound, reply_attr = None\<rparr>)"

definition rc_handler_on ::
  "('m, 'c, 'a) Marshal \<Rightarrow> ('n, 'c, 'a, 'q) RC_ops \<Rightarrow> ('n, 'c, 'q) Factory_ops
    \<Rightarrow> ('m, 'q, 'n, 'r) RCtrl \<Rightarrow> ByteBuffer
    \<Rightarrow> fault + ByteBuffer \<times> ('m, 'q, 'n, 'r) RCtrl" where
  "rc_handler_on M hw reg ctrl b =
     (case dedump_RCReq M b of
        None \<Rightarrow> Inr (WA M, ctrl)
      | Some rc_req \<Rightarrow>
          if \<not> (whether_create rc_req = 1 \<or> whether_create rc_req \<noteq> 0)
          then Inr (WA M, ctrl)
          else if whether_create rc_req = 1 then
            (case find_opened_nic (opened_nics ctrl) (nic_id rc_req) of
               None \<Rightarrow> Inr (WA M, ctrl)
             | Some nic \<Rightarrow>
                 (case reg_create_and_register_rc reg (registered_qps ctrl) (rc_id rc_req)
                         nic (config rc_req) of
                    (rc_status, qps') \<Rightarrow>
                      let ctrl' = ctrl\<lparr>registered_qps := qps'\<rparr> in
                      if code rc_status \<noteq> IOCode_Ok then Inr (WA M, ctrl')
                      else
                        (case desc rc_status of
                           None \<Rightarrow> Inl Null_descriptor
                         | Some rc \<Rightarrow>
                             if connect hw rc (attr rc_req) \<noteq> IOCode_Ok
                             then Inr (WA M,
                                    ctrl'\<lparr>registered_qps :=
                                      reg_deregister_rc reg (registered_qps ctrl')
                                        (rc_id rc_req)\<rparr>)
                             else Inr (fetch_qp_attr_on M hw reg ctrl' rc_req, ctrl'))))
          else Inr (fetch_qp_attr_on M hw reg ctrl rc_req, ctrl))"

definition modelled_Factory :: "('n, 'c, 'a, 'q) RC_ops \<Rightarrow> ('n, 'c, 'q) Factory_ops" where
  "modelled_Factory hw =
     \<lparr>reg_query_rc = query_rc,
      reg_create_and_register_rc = create_and_register_rc hw,
      reg_deregister_rc = deregister_rc\<rparr>"

subsection \<open>The life cycle of the worker thread\<close>

text \<open>
  A function declared with a result type whose body ends without a \<open>return\<close>: the
  value the caller receives is not defined by the language. The embedding makes it the
  error value \<open>Missing_return\<close>.
\<close>

datatype undefined_result = Missing_return

text \<open>
  \<open>start_daemon\<close> (lines 49 to 56): sets the flag, creates the worker thread, whose
  handle \<open>tid\<close> the system writes to \<open>handler_tid\<close>, and reaches the closing brace of a
  function declared \<open>bool\<close>.
\<close>

definition start_daemon ::
  "pthread_t \<Rightarrow> ('m, 'q, 'n, 'r) RCtrl \<Rightarrow> (undefined_result + bool) \<times> ('m, 'q, 'n, 'r) RCtrl" where
  "start_daemon tid ctrl =
     (Inl Missing_return, ctrl\<lparr>running := True, handler_tid := Some tid\<rparr>)"

text \<open>
  \<open>stop_daemon\<close> (lines 61 to 68): clears the flag if it is set and joins the worker.
\<close>

definition stop_daemon :: "('m, 'q, 'n, 'r) RCtrl \<Rightarrow> ('m, 'q, 'n, 'r) RCtrl" where
  "stop_daemon ctrl = (if running ctrl then ctrl\<lparr>running := False\<rparr> else ctrl)"

text \<open>
  \<open>daemon\<close> (lines 70 to 78). \<open>run_one_event_loop\<close> belongs to the RPC endpoint and is a
  parameter: one call returns the number of requests it processed and the state it
  leaves. That state is the whole \<open>RCtrl\<close>: the handlers it dispatches to write the
  registries, and another thread may clear \<open>running\<close> (\<open>stop_daemon\<close>) while the call
  runs. The counter \<open>total_reqs\<close> is a \<open>u64\<close>, so the sum wraps at \<open>2 ^ 64\<close>. The
  loop need not end: not returning is \<open>None\<close>.
\<close>

partial_function (option) daemon_loop ::
  "(('m, 'q, 'n, 'r) RCtrl \<Rightarrow> u64 \<times> ('m, 'q, 'n, 'r) RCtrl) \<Rightarrow> ('m, 'q, 'n, 'r) RCtrl
    \<Rightarrow> u64 \<Rightarrow> (u64 \<times> ('m, 'q, 'n, 'r) RCtrl) option" where
  "daemon_loop run_one_event_loop ctrl total_reqs =
     (if running ctrl
      then daemon_loop run_one_event_loop (snd (run_one_event_loop ctrl))
             (total_reqs + fst (run_one_event_loop ctrl))
      else Some (total_reqs, ctrl))"

text \<open>
  After the loop the worker logs \<open>stop with :<total_reqs> processed.\<close> and reaches the
  closing brace of a function declared \<open>void *\<close>. The outcome records the number
  logged, the state at exit and the result of the thread function.
\<close>

record ('m, 'q, 'n, 'r) daemon_exit =
  logged_total :: u64
  exit_state :: "('m, 'q, 'n, 'r) RCtrl"
  thread_result :: "undefined_result + unit"

definition daemon ::
  "(('m, 'q, 'n, 'r) RCtrl \<Rightarrow> u64 \<times> ('m, 'q, 'n, 'r) RCtrl) \<Rightarrow> ('m, 'q, 'n, 'r) RCtrl
    \<Rightarrow> ('m, 'q, 'n, 'r) daemon_exit option" where
  "daemon run_one_event_loop ctrl =
     (case daemon_loop run_one_event_loop ctrl 0 of
        None \<Rightarrow> None
      | Some (total_reqs, ctrl') \<Rightarrow>
          Some \<lparr>logged_total = total_reqs, exit_state = ctrl',
                thread_result = Inl Missing_return\<rparr>)"

subsection \<open>What the worker has done after a number of iterations\<close>

text \<open>
  The vocabulary of the statements about \<open>daemon\<close>: the state after \<open>k\<close> calls of
  \<open>run_one_event_loop\<close>, one after the other, and the counts those calls returned, in
  order.
\<close>

fun state_after ::
  "(('m, 'q, 'n, 'r) RCtrl \<Rightarrow> u64 \<times> ('m, 'q, 'n, 'r) RCtrl) \<Rightarrow> nat
    \<Rightarrow> ('m, 'q, 'n, 'r) RCtrl \<Rightarrow> ('m, 'q, 'n, 'r) RCtrl" where
  "state_after run 0 ctrl = ctrl"
| "state_after run (Suc k) ctrl = state_after run k (snd (run ctrl))"

fun counts_returned ::
  "(('m, 'q, 'n, 'r) RCtrl \<Rightarrow> u64 \<times> ('m, 'q, 'n, 'r) RCtrl) \<Rightarrow> nat
    \<Rightarrow> ('m, 'q, 'n, 'r) RCtrl \<Rightarrow> u64 list" where
  "counts_returned run 0 ctrl = []"
| "counts_returned run (Suc k) ctrl = fst (run ctrl) # counts_returned run k (snd (run ctrl))"

subsection \<open>A concrete daemon\<close>

text \<open>
  One instance of the parameters, on which the statements below are run. Attributes and
  queue pairs are strings, a configuration is a flag the hardware accepts or refuses, a
  NIC is a number, the endpoint's state counts the calls of its event pump.

  The marshalling understands a few buffers: two memory-region requests, and variants of
  one connection request \<open>demo_req\<close> (create queue pair 7 on NIC 3 and connect it to
  \<open>peer\<close>). A reply is dumped as the letter of its status followed by its attribute.
  The hardware creates the queue pair \<open>qp\<close> for an accepted configuration, and only
  connects to \<open>peer\<close>. The daemon \<open>demo_ctrl\<close> holds memory region 5, no queue pair,
  and the opened NIC 3. The event pump \<open>demo_pump\<close> reports three requests per call,
  and the flag is found cleared after the second call.
\<close>

definition demo_req :: "(bool, string) RCReq" where
  "demo_req = \<lparr>rc_id = 7, whether_create = 1, nic_id = 3, config = True, attr = ''peer''\<rparr>"

definition demo_dump :: "string Reply \<Rightarrow> ByteBuffer" where
  "demo_dump r =
     (case status r of Ok \<Rightarrow> ''O'' | NotFound \<Rightarrow> ''N'' | WrongArg \<Rightarrow> ''W'')
     @ (case reply_attr r of None \<Rightarrow> [] | Some a \<Rightarrow> a)"

definition demo_marshal :: "(string, bool, string) Marshal" where
  "demo_marshal =
     \<lparr>dedump_MRReq =
        (\<lambda>b. if b = ''mr5'' then Some \<lparr>mr_id = 5\<rparr>
              else if b = ''mr6'' then Some \<lparr>mr_id = 6\<rparr>
              else None),
      dedump_RCReq =
        (\<lambda>b. if b = ''create'' then Some demo_req
              else if b = ''fetch'' then Some (demo_req\<lparr>whether_create := 0\<rparr>)
              else if b = ''flag2'' then Some (demo_req\<lparr>whether_create := 2\<rparr>)
              else if b = ''nonic'' then Some (demo_req\<lparr>nic_id := 4\<rparr>)
              else if b = ''badcfg'' then Some (demo_req\<lparr>config := False\<rparr>)
              else if b = ''stranger'' then Some (demo_req\<lparr>attr := ''stranger''\<rparr>)
              else None),
      dump_MRReply = demo_dump,
      dump_RCReply = demo_dump\<rparr>"

definition demo_hw :: "(nat, bool, string, string) RC_ops" where
  "demo_hw =
     \<lparr>rc_create = (\<lambda>nic cfg. if cfg then Some ''qp'' else None),
      connect = (\<lambda>rc remote. if remote = ''peer'' then IOCode_Ok else IOCode_Err),
      my_attr = (\<lambda>rc. rc @ ''-attr'')\<rparr>"

definition demo_ctrl :: "(string, string, nat, nat) RCtrl" where
  "demo_ctrl =
     \<lparr>running = False, handler_tid = None,
      registered_mrs = [5 \<mapsto> ''region''],
      registered_qps = Map.empty,
      opened_nics = [3 \<mapsto> 0],
      rpc = 0\<rparr>"

definition demo_pump ::
  "(string, string, nat, nat) RCtrl \<Rightarrow> u64 \<times> (string, string, nat, nat) RCtrl" where
  "demo_pump ctrl = (3, ctrl\<lparr>running := (rpc ctrl + 1 < 2), rpc := rpc ctrl + 1\<rparr>)"

text \<open>
  A second registry for the same daemon, to tell a deregistration from leaving the
  registry alone: creation always succeeds, and \<open>deregister_rc\<close> removes the entry and
  notes the release under the id 0.
\<close>

definition demo_reg :: "(nat, bool, string) Factory_ops" where
  "demo_reg =
     \<lparr>reg_query_rc = (\<lambda>qps i. qps i),
      reg_create_and_register_rc =
        (\<lambda>qps i nic cfg. (\<lparr>code = IOCode_Ok, desc = Some ''qp''\<rparr>, qps(i \<mapsto> ''qp''))),
      reg_deregister_rc = (\<lambda>qps i. qps(i := None, 0 \<mapsto> ''released''))\<rparr>"

lemmas demo_defs = demo_req_def demo_dump_def demo_marshal_def demo_hw_def demo_ctrl_def

section \<open>Properties\<close>

subsection \<open>The registries\<close>

lemma create_and_register_rc_Ok:
  "create_and_register_rc hw qps i nic cfg = (r, qps') \<Longrightarrow> code r = IOCode_Ok \<Longrightarrow>
   qps i = None \<and>
   (\<exists>rc. rc_create hw nic cfg = Some rc \<and> desc r = Some rc \<and> qps' = qps(i \<mapsto> rc))"
  by (auto simp: create_and_register_rc_def split: option.splits)

lemma create_and_register_rc_Err:
  "create_and_register_rc hw qps i nic cfg = (r, qps') \<Longrightarrow> code r \<noteq> IOCode_Ok \<Longrightarrow> qps' = qps"
  by (auto simp: create_and_register_rc_def split: option.splits)

lemma create_and_register_rc_present:
  "qps i \<noteq> None \<Longrightarrow> code (fst (create_and_register_rc hw qps i nic cfg)) \<noteq> IOCode_Ok"
  by (auto simp: create_and_register_rc_def split: option.splits)

lemma deregister_rc_removes: "deregister_rc qps i i = None"
  by (simp add: deregister_rc_def)

lemma modelled_Factory_sel:
  "reg_query_rc (modelled_Factory hw) = query_rc"
  "reg_create_and_register_rc (modelled_Factory hw) = create_and_register_rc hw"
  "reg_deregister_rc (modelled_Factory hw) = deregister_rc"
  by (simp_all add: modelled_Factory_def)

lemma fetch_qp_attr_on_modelled:
  "fetch_qp_attr_on M hw (modelled_Factory hw) ctrl req = fetch_qp_attr M hw ctrl req"
  by (simp add: fetch_qp_attr_on_def fetch_qp_attr_def modelled_Factory_sel)

text \<open>On the modelled registry the handler with parameters is \<open>rc_handler\<close>.\<close>

lemma rc_handler_on_modelled:
  "rc_handler_on M hw (modelled_Factory hw) ctrl b = rc_handler M hw ctrl b"
  unfolding rc_handler_on_def rc_handler_def fetch_qp_attr_on_modelled modelled_Factory_sel
  by (rule refl)

text \<open>
  The descriptor of a successful creation is never null, so the handler never calls
  \<open>connect\<close> through a null pointer.
\<close>

lemma rc_handler_no_fault: "rc_handler M hw ctrl b \<noteq> Inl e"
  by (auto simp: rc_handler_def create_and_register_rc_def Let_def
      split: option.splits prod.splits)

subsection \<open>The sanity check of \<open>rc_handler\<close>\<close>

text \<open>
  The condition of the check, \<open>\<not> (whether_create = 1 \<or> whether_create \<noteq> 0)\<close>, holds
  for the flag 0 and for no other value: the check turns away exactly the fetch-only
  requests.
\<close>

lemma sanity_check_rejects_iff:
  "(\<not> (w = (1::u8) \<or> w \<noteq> 0)) = (w = 0)"
  by auto

lemma rc_handler_fetch_only:
  "dedump_RCReq M b = Some req \<Longrightarrow> whether_create req = 0 \<Longrightarrow>
   rc_handler M hw ctrl b
     = Inr (dump_RCReply M \<lparr>status = WrongArg, reply_attr = None\<rparr>, ctrl)"
  by (simp add: rc_handler_def WA_def)

text \<open>A creation that goes through: the reply is the attribute of the new queue pair.\<close>

lemma rc_handler_create_Ok:
  assumes "dedump_RCReq M b = Some req"
    and "whether_create req = 1"
    and "opened_nics ctrl (nic_id req) = Some nic"
    and "registered_qps ctrl (rc_id req) = None"
    and "rc_create hw nic (config req) = Some rc"
    and "connect hw rc (attr req) = IOCode_Ok"
  shows "rc_handler M hw ctrl b =
           Inr (dump_RCReply M \<lparr>status = Ok, reply_attr = Some (my_attr hw rc)\<rparr>,
                ctrl\<lparr>registered_qps := (registered_qps ctrl)(rc_id req \<mapsto> rc)\<rparr>)"
  using assms
  by (simp add: rc_handler_def WA_def find_opened_nic_def create_and_register_rc_def
      fetch_qp_attr_def query_rc_def)

subsection \<open>The worker loop\<close>

lemma daemon_loop_exits:
  "(\<And>i. i < k \<Longrightarrow> running (state_after run i ctrl)) \<Longrightarrow>
   \<not> running (state_after run k ctrl) \<Longrightarrow>
   daemon_loop run ctrl t
     = Some (t + sum_list (counts_returned run k ctrl), state_after run k ctrl)"
proof (induction k arbitrary: ctrl t)
  case 0
  then show ?case by (subst daemon_loop.simps) simp
next
  case (Suc k)
  have r: "running ctrl" using Suc.prems(1)[of 0] by simp
  have later: "\<And>i. i < k \<Longrightarrow> running (state_after run i (snd (run ctrl)))"
    using Suc.prems(1) by (metis Suc_less_eq state_after.simps(2))
  have stop: "\<not> running (state_after run k (snd (run ctrl)))"
    using Suc.prems(2) by simp
  show ?case
    by (subst daemon_loop.simps) (simp add: r Suc.IH[OF later stop] add.assoc)
qed

text \<open>The loop only returns when some check finds the flag cleared.\<close>

lemma daemon_loop_Some_exit:
  "daemon_loop run ctrl t = Some y \<Longrightarrow> \<exists>k. \<not> running (state_after run k ctrl)"
proof (induction rule: daemon_loop.raw_induct[rotated 1, consumes 1])
  case (1 f run ctrl t y)
  show ?case
  proof (cases "running ctrl")
    case True
    with 1(2) have "f run (snd (run ctrl)) (t + fst (run ctrl)) = Some y" by simp
    from 1(1)[OF this] obtain k where "\<not> running (state_after run k (snd (run ctrl)))"
      by blast
    then have "\<not> running (state_after run (Suc k) ctrl)" by simp
    then show ?thesis by blast
  next
    case False
    then have "\<not> running (state_after run 0 ctrl)" by simp
    then show ?thesis by blast
  qed
qed

lemma daemon_never_stopped:
  "(\<And>i. running (state_after run i ctrl)) \<Longrightarrow> daemon run ctrl = None"
  using daemon_loop_Some_exit[of run ctrl 0]
  by (cases "daemon_loop run ctrl 0") (auto simp: daemon_def)

lemma unat_sum_list_u64:
  "unat (sum_list ws :: u64) = sum_list (map unat ws) mod 2 ^ 64"
proof (induction ws)
  case Nil
  show ?case by simp
next
  case (Cons w ws)
  have "unat (w + sum_list ws) = (unat w + unat (sum_list ws)) mod 2 ^ 64"
    by (simp add: unat_word_ariths)
  also have "\<dots> = (unat w + sum_list (map unat ws) mod 2 ^ 64) mod 2 ^ 64"
    by (simp only: Cons.IH)
  also have "\<dots> = (unat w + sum_list (map unat ws)) mod 2 ^ 64"
    by (rule mod_add_right_eq)
  finally show ?case by simp
qed

subsection \<open>Claims about \<open>rc_handler\<close> and \<open>fetch_mr_handler\<close>\<close>

text \<open>
  Claim C1. A create request that reaches the connect step (the flag is 1, the NIC is
  found, the registry has created and registered the queue pair, leaving the registry
  \<open>qps'\<close>) and whose \<open>connect\<close> fails. Whatever the operations of the registry
  compute, the handler replies \<open>WrongArg\<close> and the QP registry it leaves is the result
  of \<open>deregister_rc\<close> on \<open>qps'\<close> and the request's id: the deregistration is carried
  out, after the creation, on the id of the request, and nothing else is changed. For a
  registry whose \<open>deregister_rc\<close> removes the entry of the id it is given, the QP
  registry therefore has no entry for the request's id afterwards.
\<close>

theorem rc_handler_connect_fails:
  assumes "dedump_RCReq M b = Some req"
    and "whether_create req = 1"
    and "opened_nics ctrl (nic_id req) = Some nic"
    and "reg_create_and_register_rc reg (registered_qps ctrl) (rc_id req) nic (config req)
           = (\<lparr>code = IOCode_Ok, desc = Some rc\<rparr>, qps')"
    and "connect hw rc (attr req) \<noteq> IOCode_Ok"
  shows "\<exists>ctrl'. rc_handler_on M hw reg ctrl b
             = Inr (dump_RCReply M \<lparr>status = WrongArg, reply_attr = None\<rparr>, ctrl') \<and>
           ctrl' = ctrl\<lparr>registered_qps := reg_deregister_rc reg qps' (rc_id req)\<rparr> \<and>
           ((\<forall>qps i. reg_deregister_rc reg qps i i = None)
              \<longrightarrow> registered_qps ctrl' (rc_id req) = None)"
  using assms by (simp add: rc_handler_on_def WA_def find_opened_nic_def)

text \<open>
  The request \<open>stranger\<close> on both registries. On the modelled one, where the handler
  is \<open>rc_handler\<close>, queue pair 7 is registered and then deregistered, and no entry for
  7 is left. On \<open>demo_reg\<close> the registry left behind carries the note of the release,
  which only the call of \<open>deregister_rc\<close> writes.
\<close>

theorem rc_handler_connect_fails_witness:
  "dedump_RCReq demo_marshal ''stranger'' = Some (demo_req\<lparr>attr := ''stranger''\<rparr>) \<and>
   opened_nics demo_ctrl 3 = Some 0 \<and>
   create_and_register_rc demo_hw (registered_qps demo_ctrl) 7 0 True
     = (\<lparr>code = IOCode_Ok, desc = Some ''qp''\<rparr>, [7 \<mapsto> ''qp'']) \<and>
   connect demo_hw ''qp'' ''stranger'' = IOCode_Err \<and>
   rc_handler_on demo_marshal demo_hw (modelled_Factory demo_hw) demo_ctrl ''stranger''
     = Inr (''W'', demo_ctrl\<lparr>registered_qps := deregister_rc [7 \<mapsto> ''qp''] 7\<rparr>) \<and>
   rc_handler demo_marshal demo_hw demo_ctrl ''stranger''
     = Inr (''W'', demo_ctrl\<lparr>registered_qps := deregister_rc [7 \<mapsto> ''qp''] 7\<rparr>) \<and>
   deregister_rc [7 \<mapsto> ''qp''] 7 7 = (None :: string option) \<and>
   rc_handler_on demo_marshal demo_hw demo_reg demo_ctrl ''stranger''
     = Inr (''W'', demo_ctrl\<lparr>registered_qps := [0 \<mapsto> ''released'']\<rparr>)"
proof -
  let ?req = "demo_req\<lparr>attr := ''stranger''\<rparr>"
  let ?reg = "modelled_Factory demo_hw"
  have d: "dedump_RCReq demo_marshal ''stranger'' = Some ?req"
    by (simp add: demo_marshal_def)
  have w: "whether_create ?req = 1" by (simp add: demo_req_def)
  have n: "opened_nics demo_ctrl (nic_id ?req) = Some 0"
    by (simp add: demo_req_def demo_ctrl_def)
  have c0: "create_and_register_rc demo_hw (registered_qps demo_ctrl) 7 0 True
             = (\<lparr>code = IOCode_Ok, desc = Some ''qp''\<rparr>, [7 \<mapsto> ''qp''])"
    by (simp add: create_and_register_rc_def demo_ctrl_def demo_hw_def)
  have c: "reg_create_and_register_rc ?reg (registered_qps demo_ctrl) (rc_id ?req) 0
             (config ?req)
             = (\<lparr>code = IOCode_Ok, desc = Some ''qp''\<rparr>, [7 \<mapsto> ''qp''])"
    using c0 by (simp add: modelled_Factory_def demo_req_def)
  have c': "reg_create_and_register_rc demo_reg (registered_qps demo_ctrl) (rc_id ?req) 0
              (config ?req)
              = (\<lparr>code = IOCode_Ok, desc = Some ''qp''\<rparr>, [7 \<mapsto> ''qp''])"
    by (simp add: demo_reg_def demo_req_def demo_ctrl_def)
  have f: "connect demo_hw ''qp'' (attr ?req) \<noteq> IOCode_Ok"
    by (simp add: demo_hw_def)
  have e: "connect demo_hw ''qp'' ''stranger'' = IOCode_Err"
    by (simp add: demo_hw_def)
  have m: "dump_RCReply demo_marshal \<lparr>status = WrongArg, reply_attr = None\<rparr> = ''W''"
    by (simp add: demo_marshal_def demo_dump_def)
  have r: "reg_deregister_rc ?reg [7 \<mapsto> ''qp''] (rc_id demo_req)
             = deregister_rc [7 \<mapsto> ''qp''] 7"
    by (simp add: modelled_Factory_sel demo_req_def)
  have r': "reg_deregister_rc demo_reg [7 \<mapsto> ''qp''] (rc_id demo_req)
              = [0 \<mapsto> ''released'']"
    by (auto simp: demo_reg_def demo_req_def)
  from rc_handler_connect_fails[OF d w n c f]
  have on: "rc_handler_on demo_marshal demo_hw ?reg demo_ctrl ''stranger''
          = Inr (''W'', demo_ctrl\<lparr>registered_qps := deregister_rc [7 \<mapsto> ''qp''] 7\<rparr>)"
    by (simp add: m r)
  from rc_handler_connect_fails[OF d w n c' f]
  have on': "rc_handler_on demo_marshal demo_hw demo_reg demo_ctrl ''stranger''
          = Inr (''W'', demo_ctrl\<lparr>registered_qps := [0 \<mapsto> ''released'']\<rparr>)"
    by (simp add: m r')
  have gone: "deregister_rc [7 \<mapsto> ''qp''] 7 7 = (None :: string option)"
    by (rule deregister_rc_removes)
  from on have h: "rc_handler demo_marshal demo_hw demo_ctrl ''stranger''
          = Inr (''W'', demo_ctrl\<lparr>registered_qps := deregister_rc [7 \<mapsto> ''qp''] 7\<rparr>)"
    by (simp add: rc_handler_on_modelled)
  show ?thesis
    using d n c0 e on h gone on' by (simp add: demo_req_def)
qed

text \<open>
  Claim C2, as the specification states it: a request whose flag is neither 0 nor 1 is
  answered \<open>WrongArg\<close>. The handler does not do so. With the flag 2 the request passes
  the sanity check and is answered by the final fetch: here \<open>NotFound\<close>, since no queue
  pair is registered under the id. The reply differs from the \<open>WrongArg\<close> reply.
\<close>

theorem rc_handler_flag2_not_rejected:
  "dedump_RCReq demo_marshal ''flag2'' = Some (demo_req\<lparr>whether_create := 2\<rparr>) \<and>
   rc_handler demo_marshal demo_hw demo_ctrl ''flag2''
     = Inr (dump_RCReply demo_marshal \<lparr>status = NotFound, reply_attr = None\<rparr>, demo_ctrl) \<and>
   dump_RCReply demo_marshal \<lparr>status = NotFound, reply_attr = None\<rparr>
     \<noteq> dump_RCReply demo_marshal \<lparr>status = WrongArg, reply_attr = None\<rparr>"
  by (simp add: rc_handler_def fetch_qp_attr_def query_rc_def demo_defs)

text \<open>
  Claim C3, as the specification states it: after a create request was answered \<open>Ok\<close>,
  a fetch-only request for the same id is answered \<open>Ok\<close> with the same attribute. The
  handler does not do so. The create request registers queue pair 7 and is answered
  \<open>Ok\<close> with its attribute; the fetch-only request that follows (flag 0, same id, on
  the state the first request left) stops at the sanity check and is answered
  \<open>WrongArg\<close>, although the registry holds the queue pair.
\<close>

theorem rc_handler_refetch_rejected:
  "rc_handler demo_marshal demo_hw demo_ctrl ''create''
     = Inr (dump_RCReply demo_marshal \<lparr>status = Ok, reply_attr = Some ''qp-attr''\<rparr>,
            demo_ctrl\<lparr>registered_qps := [7 \<mapsto> ''qp'']\<rparr>) \<and>
   dedump_RCReq demo_marshal ''fetch'' = Some (demo_req\<lparr>whether_create := 0\<rparr>) \<and>
   rc_handler demo_marshal demo_hw (demo_ctrl\<lparr>registered_qps := [7 \<mapsto> ''qp'']\<rparr>) ''fetch''
     = Inr (dump_RCReply demo_marshal \<lparr>status = WrongArg, reply_attr = None\<rparr>,
            demo_ctrl\<lparr>registered_qps := [7 \<mapsto> ''qp'']\<rparr>) \<and>
   dump_RCReply demo_marshal \<lparr>status = WrongArg, reply_attr = None\<rparr>
     \<noteq> dump_RCReply demo_marshal \<lparr>status = Ok, reply_attr = Some ''qp-attr''\<rparr>"
  by (simp add: rc_handler_def WA_def find_opened_nic_def create_and_register_rc_def
      fetch_qp_attr_def query_rc_def demo_defs)

text \<open>
  Claim C4. \<open>fetch_mr_handler\<close>, on any buffer: if the buffer does not deserialise to
  a request the reply is \<open>WrongArg\<close>; if it does and the MR registry holds the
  requested id the reply is \<open>Ok\<close> with the stored attribute; if the id is absent the
  reply is \<open>NotFound\<close>. The state is left as it was.
\<close>

theorem fetch_mr_handler_reply:
  "(dedump_MRReq M b = None \<longrightarrow>
      fetch_mr_handler M ctrl b
        = (dump_MRReply M \<lparr>status = WrongArg, reply_attr = None\<rparr>, ctrl)) \<and>
   (\<forall>req. dedump_MRReq M b = Some req \<longrightarrow>
      (\<forall>a. registered_mrs ctrl (mr_id req) = Some a \<longrightarrow>
         fetch_mr_handler M ctrl b
           = (dump_MRReply M \<lparr>status = Ok, reply_attr = Some a\<rparr>, ctrl)) \<and>
      (registered_mrs ctrl (mr_id req) = None \<longrightarrow>
         fetch_mr_handler M ctrl b
           = (dump_MRReply M \<lparr>status = NotFound, reply_attr = None\<rparr>, ctrl)))"
  by (simp add: fetch_mr_handler_def get_attr_byid_def)

theorem fetch_mr_handler_reply_witness:
  "dedump_MRReq demo_marshal ''junk'' = None \<and>
   fetch_mr_handler demo_marshal demo_ctrl ''junk'' = (''W'', demo_ctrl) \<and>
   dedump_MRReq demo_marshal ''mr5'' = Some \<lparr>mr_id = 5\<rparr> \<and>
   registered_mrs demo_ctrl 5 = Some ''region'' \<and>
   fetch_mr_handler demo_marshal demo_ctrl ''mr5'' = (''Oregion'', demo_ctrl) \<and>
   dedump_MRReq demo_marshal ''mr6'' = Some \<lparr>mr_id = 6\<rparr> \<and>
   registered_mrs demo_ctrl 6 = None \<and>
   fetch_mr_handler demo_marshal demo_ctrl ''mr6'' = (''N'', demo_ctrl)"
proof -
  have junk: "dedump_MRReq demo_marshal ''junk'' = None"
    and mr5: "dedump_MRReq demo_marshal ''mr5'' = Some \<lparr>mr_id = 5\<rparr>"
    and mr6: "dedump_MRReq demo_marshal ''mr6'' = Some \<lparr>mr_id = 6\<rparr>"
    by (simp_all add: demo_marshal_def)
  have r5: "registered_mrs demo_ctrl 5 = Some ''region''"
    and r6: "registered_mrs demo_ctrl 6 = None"
    by (simp_all add: demo_ctrl_def)
  have d: "dump_MRReply demo_marshal \<lparr>status = WrongArg, reply_attr = None\<rparr> = ''W''"
    "dump_MRReply demo_marshal \<lparr>status = Ok, reply_attr = Some ''region''\<rparr> = ''Oregion''"
    "dump_MRReply demo_marshal \<lparr>status = NotFound, reply_attr = None\<rparr> = ''N''"
    by (simp_all add: demo_marshal_def demo_dump_def)
  show ?thesis
    using fetch_mr_handler_reply[of demo_marshal "''junk''" demo_ctrl]
      fetch_mr_handler_reply[of demo_marshal "''mr5''" demo_ctrl]
      fetch_mr_handler_reply[of demo_marshal "''mr6''" demo_ctrl]
    by (simp add: junk mr5 mr6 r5 r6 d)
qed

text \<open>
  Claim C5. A create request whose NIC id is not in the NIC registry is answered
  \<open>WrongArg\<close>, and the state (the QP registry with it) is the state before the call.
\<close>

theorem rc_handler_no_nic:
  assumes "dedump_RCReq M b = Some req"
    and "whether_create req = 1"
    and "opened_nics ctrl (nic_id req) = None"
  shows "rc_handler M hw ctrl b
           = Inr (dump_RCReply M \<lparr>status = WrongArg, reply_attr = None\<rparr>, ctrl)"
  using assms by (simp add: rc_handler_def WA_def find_opened_nic_def)

theorem rc_handler_no_nic_witness:
  "dedump_RCReq demo_marshal ''nonic'' = Some (demo_req\<lparr>nic_id := 4\<rparr>) \<and>
   opened_nics demo_ctrl 4 = None \<and>
   rc_handler demo_marshal demo_hw demo_ctrl ''nonic'' = Inr (''W'', demo_ctrl)"
proof -
  let ?req = "demo_req\<lparr>nic_id := 4\<rparr>"
  have d: "dedump_RCReq demo_marshal ''nonic'' = Some ?req"
    by (simp add: demo_marshal_def)
  have w: "whether_create ?req = 1" by (simp add: demo_req_def)
  have n: "opened_nics demo_ctrl (nic_id ?req) = None"
    by (simp add: demo_req_def demo_ctrl_def)
  have m: "dump_RCReply demo_marshal \<lparr>status = WrongArg, reply_attr = None\<rparr> = ''W''"
    by (simp add: demo_marshal_def demo_dump_def)
  from rc_handler_no_nic[OF d w n, of demo_hw] d n show ?thesis
    by (simp add: m demo_req_def)
qed

text \<open>
  Claim C6. A create request whose NIC is found and for which creating and registering
  the queue pair fails, as it does whenever the QP registry already holds an entry for
  the id, is answered \<open>WrongArg\<close>, and the state is the state before the call: the
  registry holds nothing that this request created.
\<close>

theorem rc_handler_create_fails:
  assumes "dedump_RCReq M b = Some req"
    and "whether_create req = 1"
    and "opened_nics ctrl (nic_id req) = Some nic"
    and "registered_qps ctrl (rc_id req) \<noteq> None \<or>
         code (fst (create_and_register_rc hw (registered_qps ctrl) (rc_id req) nic
                      (config req))) \<noteq> IOCode_Ok"
  shows "rc_handler M hw ctrl b
           = Inr (dump_RCReply M \<lparr>status = WrongArg, reply_attr = None\<rparr>, ctrl)"
proof -
  obtain r qps' where
    c: "create_and_register_rc hw (registered_qps ctrl) (rc_id req) nic (config req) = (r, qps')"
    by (cases "create_and_register_rc hw (registered_qps ctrl) (rc_id req) nic (config req)")
  have bad: "code r \<noteq> IOCode_Ok"
    using assms(4) c
      create_and_register_rc_present[of "registered_qps ctrl" "rc_id req" hw nic "config req"]
    by auto
  have same: "qps' = registered_qps ctrl"
    by (rule create_and_register_rc_Err[OF c bad])
  show ?thesis
    using assms(1-3) c bad same by (simp add: rc_handler_def WA_def find_opened_nic_def)
qed

theorem rc_handler_create_fails_witness:
  "dedump_RCReq demo_marshal ''create'' = Some demo_req \<and>
   registered_qps (demo_ctrl\<lparr>registered_qps := [7 \<mapsto> ''old'']\<rparr>) 7 = Some ''old'' \<and>
   rc_handler demo_marshal demo_hw (demo_ctrl\<lparr>registered_qps := [7 \<mapsto> ''old'']\<rparr>) ''create''
     = Inr (''W'', demo_ctrl\<lparr>registered_qps := [7 \<mapsto> ''old'']\<rparr>) \<and>
   dedump_RCReq demo_marshal ''badcfg'' = Some (demo_req\<lparr>config := False\<rparr>) \<and>
   code (fst (create_and_register_rc demo_hw (registered_qps demo_ctrl) 7 0 False)) = IOCode_Err \<and>
   rc_handler demo_marshal demo_hw demo_ctrl ''badcfg'' = Inr (''W'', demo_ctrl)"
proof -
  let ?held = "demo_ctrl\<lparr>registered_qps := [7 \<mapsto> ''old'']\<rparr>"
  let ?bad = "demo_req\<lparr>config := False\<rparr>"
  have d1: "dedump_RCReq demo_marshal ''create'' = Some demo_req"
    and d2: "dedump_RCReq demo_marshal ''badcfg'' = Some ?bad"
    by (simp_all add: demo_marshal_def)
  have w1: "whether_create demo_req = 1" and w2: "whether_create ?bad = 1"
    by (simp_all add: demo_req_def)
  have n1: "opened_nics ?held (nic_id demo_req) = Some 0"
    and n2: "opened_nics demo_ctrl (nic_id ?bad) = Some 0"
    by (simp_all add: demo_req_def demo_ctrl_def)
  have p: "registered_qps ?held 7 = Some ''old''" by simp
  have h1: "registered_qps ?held (rc_id demo_req) \<noteq> None \<or>
            code (fst (create_and_register_rc demo_hw (registered_qps ?held) (rc_id demo_req) 0
                         (config demo_req))) \<noteq> IOCode_Ok"
    by (simp add: demo_req_def)
  have e: "code (fst (create_and_register_rc demo_hw (registered_qps demo_ctrl) 7 0 False))
             = IOCode_Err"
    by (simp add: create_and_register_rc_def demo_ctrl_def demo_hw_def)
  have h2: "registered_qps demo_ctrl (rc_id ?bad) \<noteq> None \<or>
            code (fst (create_and_register_rc demo_hw (registered_qps demo_ctrl) (rc_id ?bad) 0
                         (config ?bad))) \<noteq> IOCode_Ok"
    using e by (simp add: demo_req_def)
  have m: "dump_RCReply demo_marshal \<lparr>status = WrongArg, reply_attr = None\<rparr> = ''W''"
    by (simp add: demo_marshal_def demo_dump_def)
  from rc_handler_create_fails[OF d1 w1 n1 h1] rc_handler_create_fails[OF d2 w2 n2 h2]
  have "rc_handler demo_marshal demo_hw ?held ''create'' = Inr (''W'', ?held)"
    and "rc_handler demo_marshal demo_hw demo_ctrl ''badcfg'' = Inr (''W'', demo_ctrl)"
    by (simp_all add: m)
  with d1 d2 p e show ?thesis by simp
qed

text \<open>
  Claim C7. On a buffer that does not deserialise to its request type, each of the two
  handlers replies \<open>WrongArg\<close> and returns the state it was given: the MR, QP and NIC
  registries are the ones before the call.
\<close>

theorem malformed_request_WrongArg:
  "(dedump_MRReq M b = None \<longrightarrow>
      (\<exists>ctrl'. fetch_mr_handler M ctrl b
                 = (dump_MRReply M \<lparr>status = WrongArg, reply_attr = None\<rparr>, ctrl') \<and>
               registered_mrs ctrl' = registered_mrs ctrl \<and>
               registered_qps ctrl' = registered_qps ctrl \<and>
               opened_nics ctrl' = opened_nics ctrl \<and> ctrl' = ctrl)) \<and>
   (dedump_RCReq M b = None \<longrightarrow>
      (\<exists>ctrl'. rc_handler M hw ctrl b
                 = Inr (dump_RCReply M \<lparr>status = WrongArg, reply_attr = None\<rparr>, ctrl') \<and>
               registered_mrs ctrl' = registered_mrs ctrl \<and>
               registered_qps ctrl' = registered_qps ctrl \<and>
               opened_nics ctrl' = opened_nics ctrl \<and> ctrl' = ctrl))"
  by (simp add: fetch_mr_handler_def rc_handler_def WA_def)

theorem malformed_request_WrongArg_witness:
  "dedump_MRReq demo_marshal ''junk'' = None \<and>
   dedump_RCReq demo_marshal ''junk'' = None \<and>
   fetch_mr_handler demo_marshal demo_ctrl ''junk'' = (''W'', demo_ctrl) \<and>
   rc_handler demo_marshal demo_hw demo_ctrl ''junk'' = Inr (''W'', demo_ctrl)"
proof -
  have j1: "dedump_MRReq demo_marshal ''junk'' = None"
    and j2: "dedump_RCReq demo_marshal ''junk'' = None"
    by (simp_all add: demo_marshal_def)
  have m: "dump_MRReply demo_marshal \<lparr>status = WrongArg, reply_attr = None\<rparr> = ''W''"
    "dump_RCReply demo_marshal \<lparr>status = WrongArg, reply_attr = None\<rparr> = ''W''"
    by (simp_all add: demo_marshal_def demo_dump_def)
  show ?thesis
    using malformed_request_WrongArg[of demo_marshal "''junk''" demo_ctrl demo_hw]
    by (simp add: j1 j2 m)
qed

text \<open>
  Claim C10. A request whose flag is neither 0 nor 1 passes the sanity check, skips the
  creation step and leaves the state as it was; the reply is that of the final fetch
  for the request's id: \<open>Ok\<close> with the attribute of the registered queue pair, or
  \<open>NotFound\<close> when there is none. Such a flag is handled as a fetch, not as a
  creation.
\<close>

theorem rc_handler_other_flag:
  assumes "dedump_RCReq M b = Some req"
    and "whether_create req \<noteq> 0"
    and "whether_create req \<noteq> 1"
  shows "rc_handler M hw ctrl b = Inr (fetch_qp_attr M hw ctrl req, ctrl) \<and>
         fetch_qp_attr M hw ctrl req =
           (case registered_qps ctrl (rc_id req) of
              Some rc \<Rightarrow> dump_RCReply M \<lparr>status = Ok, reply_attr = Some (my_attr hw rc)\<rparr>
            | None \<Rightarrow> dump_RCReply M \<lparr>status = NotFound, reply_attr = None\<rparr>)"
  using assms by (simp add: rc_handler_def fetch_qp_attr_def query_rc_def)

theorem rc_handler_other_flag_witness:
  "dedump_RCReq demo_marshal ''flag2'' = Some (demo_req\<lparr>whether_create := 2\<rparr>) \<and>
   rc_handler demo_marshal demo_hw demo_ctrl ''flag2'' = Inr (''N'', demo_ctrl) \<and>
   rc_handler demo_marshal demo_hw (demo_ctrl\<lparr>registered_qps := [7 \<mapsto> ''old'']\<rparr>) ''flag2''
     = Inr (''Oold-attr'', demo_ctrl\<lparr>registered_qps := [7 \<mapsto> ''old'']\<rparr>)"
proof -
  let ?held = "demo_ctrl\<lparr>registered_qps := [7 \<mapsto> ''old'']\<rparr>"
  let ?req = "demo_req\<lparr>whether_create := 2\<rparr>"
  have d: "dedump_RCReq demo_marshal ''flag2'' = Some ?req"
    by (simp add: demo_marshal_def)
  have w0: "whether_create ?req \<noteq> 0" and w1: "whether_create ?req \<noteq> 1"
    by simp_all
  have m: "dump_RCReply demo_marshal \<lparr>status = NotFound, reply_attr = None\<rparr> = ''N''"
    "dump_RCReply demo_marshal \<lparr>status = Ok, reply_attr = Some (my_attr demo_hw ''old'')\<rparr>
       = ''Oold-attr''"
    by (simp_all add: demo_marshal_def demo_dump_def demo_hw_def)
  from rc_handler_other_flag[OF d w0 w1, of demo_hw demo_ctrl]
    rc_handler_other_flag[OF d w0 w1, of demo_hw ?held]
  have "rc_handler demo_marshal demo_hw demo_ctrl ''flag2'' = Inr (''N'', demo_ctrl)"
    and "rc_handler demo_marshal demo_hw ?held ''flag2'' = Inr (''Oold-attr'', ?held)"
    by (simp_all add: m demo_req_def demo_ctrl_def)
  with d show ?thesis by simp
qed

subsection \<open>Claims about the life cycle\<close>

text \<open>
  The loop of the worker: as long as a check finds \<open>running\<close> set, the iteration is one
  call of \<open>run_one_event_loop\<close> and nothing else, and its count is added to the total.
  If the first \<open>k\<close> checks find the flag set and the next one finds it cleared, the
  worker leaves the loop after exactly \<open>k\<close> calls: the state at exit is the state after
  those \<open>k\<close> calls, and the number it logs is the sum of the \<open>k\<close> counts they
  returned, in the 64-bit arithmetic of \<open>total_reqs\<close>.
\<close>

lemma daemon_polls_until_stopped:
  assumes "\<forall>i<k. running (state_after run i ctrl)"
    and "\<not> running (state_after run k ctrl)"
  shows "daemon run ctrl =
           Some \<lparr>logged_total = sum_list (counts_returned run k ctrl),
                 exit_state = state_after run k ctrl,
                 thread_result = Inl Missing_return\<rparr> \<and>
         length (counts_returned run k ctrl) = k \<and>
         unat (sum_list (counts_returned run k ctrl))
           = sum_list (map unat (counts_returned run k ctrl)) mod 2 ^ 64"
proof -
  have "daemon_loop run ctrl 0
          = Some (0 + sum_list (counts_returned run k ctrl), state_after run k ctrl)"
    using assms by (intro daemon_loop_exits) auto
  then have "daemon run ctrl =
           Some \<lparr>logged_total = sum_list (counts_returned run k ctrl),
                 exit_state = state_after run k ctrl,
                 thread_result = Inl Missing_return\<rparr>"
    by (simp add: daemon_def)
  moreover have "length (counts_returned run k ctrl) = k"
    by (induction k arbitrary: ctrl) simp_all
  ultimately show ?thesis
    by (simp add: unat_sum_list_u64)
qed

text \<open>
  What follows the loop: the thread function is declared \<open>void *\<close> and its body ends
  after the log statement without a \<open>return\<close>. No run of \<open>daemon\<close> that leaves the
  loop ends by returning a value.
\<close>

lemma daemon_thread_result:
  "daemon run ctrl = Some e \<Longrightarrow> thread_result e = Inl Missing_return"
  by (auto simp: daemon_def split: option.splits)

text \<open>
  Claim C8, as the specification states it: while the flag is found set the worker
  calls \<open>run_one_event_loop\<close> once per iteration and adds up the counts, and on loop
  exit it reports the total and terminates. The worker does the first and does not
  terminate as a function of its type must. On the run below the flag is found set at
  the first two checks and cleared at the third; the two calls return 3 each, the
  worker logs 6, and control then runs off the end of the thread function: the result
  is the missing return, not a returned value.
\<close>

theorem daemon_ends_without_return:
  "running (state_after demo_pump 0 (demo_ctrl\<lparr>running := True\<rparr>)) \<and>
   running (state_after demo_pump 1 (demo_ctrl\<lparr>running := True\<rparr>)) \<and>
   \<not> running (state_after demo_pump 2 (demo_ctrl\<lparr>running := True\<rparr>)) \<and>
   counts_returned demo_pump 2 (demo_ctrl\<lparr>running := True\<rparr>) = [3, 3] \<and>
   daemon demo_pump (demo_ctrl\<lparr>running := True\<rparr>) =
     Some \<lparr>logged_total = 6, exit_state = demo_ctrl\<lparr>rpc := 2\<rparr>,
           thread_result = Inl Missing_return\<rparr> \<and>
   (Inl Missing_return :: undefined_result + unit) \<noteq> Inr ()"
proof -
  let ?c = "demo_ctrl\<lparr>running := True\<rparr>"
  have s0: "state_after demo_pump 0 ?c = ?c" by simp
  have s1: "state_after demo_pump 1 ?c = demo_ctrl\<lparr>running := True, rpc := 1\<rparr>"
    by (simp add: demo_pump_def demo_ctrl_def)
  have s2: "state_after demo_pump 2 ?c = demo_ctrl\<lparr>rpc := 2\<rparr>"
    by (simp add: numeral_2_eq_2 demo_pump_def demo_ctrl_def)
  have cs: "counts_returned demo_pump 2 ?c = [3, 3]"
    by (simp add: numeral_2_eq_2 demo_pump_def)
  have r: "\<forall>i<2. running (state_after demo_pump i ?c)"
  proof (intro allI impI)
    fix i :: nat assume "i < 2"
    then have "i = 0 \<or> i = 1" by auto
    then show "running (state_after demo_pump i ?c)"
      using s0 s1 by auto
  qed
  have stop: "\<not> running (state_after demo_pump 2 ?c)"
    by (subst s2) (simp add: demo_ctrl_def)
  from daemon_polls_until_stopped[OF r stop]
  have "daemon demo_pump ?c =
          Some \<lparr>logged_total = 6, exit_state = demo_ctrl\<lparr>rpc := 2\<rparr>,
                thread_result = Inl Missing_return\<rparr>"
    by (simp add: cs s2)
  with s0 s1 stop cs show ?thesis by simp
qed

text \<open>
  Claim C9. \<open>start_daemon\<close> is declared to return \<open>bool\<close> and has no \<open>return\<close>
  statement: every call sets the flag, creates the thread and ends in the missing
  return, so no call yields a boolean.
\<close>

theorem start_daemon_missing_return:
  "fst (start_daemon tid ctrl) = Inl Missing_return \<and>
   (\<forall>v. fst (start_daemon tid ctrl) \<noteq> Inr v) \<and>
   snd (start_daemon tid ctrl) = ctrl\<lparr>running := True, handler_tid := Some tid\<rparr>"
  by (simp add: start_daemon_def)

end
